theory Spec2Isabelle
  imports Main
begin

section \<open>Python values, exceptions and the binding to the wrapped library\<close>

text \<open>
  The sources are Python 2 (\<^verbatim>\<open>examples/tree/models.py\<close> ends in the statement
  \<^verbatim>\<open>print Event\<close>). An exception is a value of type \<open>error\<close>; a computation that
  may raise returns \<open>error + 'a\<close>, paired with the state reached when it stopped, since a
  Python exception undoes nothing.
\<close>

datatype error = ValueError string | TypeError string | NameError string

definition quoted :: "string \<Rightarrow> string" where
  "quoted s = [CHR 0x27] @ s @ [CHR 0x27]"

definition does_not_exist :: "string \<Rightarrow> string \<Rightarrow> string \<Rightarrow> string" where
  \<comment> \<open>\<^verbatim>\<open>"KIND named '{0}' does not exist in the workspace '{1}'".format(name, self.name)\<close>\<close>
  "does_not_exist kind nm wsname =
     kind @ '' named '' @ quoted nm @ '' does not exist in the workspace '' @ quoted wsname"

text \<open>
  A native object seen from Python: the names of its class and of all the bases of that
  class, and the address of the C++ object behind the proxy. Everything mutable about a
  native object is kept in the world, under its address.
\<close>

type_synonym addr = nat

record tobject =
  classes :: "string list"
  ptr :: addr

definition isinstance :: "tobject \<Rightarrow> string \<Rightarrow> bool" where
  "isinstance thing cls = (cls \<in> set (classes thing))"

text \<open>
  A native accessor returns a pointer, which the binding hands to Python as a proxy:
  \<open>None\<close> is the proxy of a null pointer. The binding compares such a proxy equal to
  Python's \<^verbatim>\<open>None\<close> exactly when the pointer is null (\<^verbatim>\<open>thing == None\<close>), and its
  truth value (\<^verbatim>\<open>if thing:\<close>) is that the pointer is not null.
\<close>

definition eq_None :: "tobject option \<Rightarrow> bool" where
  "eq_None thing = (case thing of None \<Rightarrow> True | Some _ \<Rightarrow> False)"

definition proxy_truth :: "tobject option \<Rightarrow> bool" where
  "proxy_truth thing = (case thing of None \<Rightarrow> False | Some _ \<Rightarrow> True)"

text \<open>
  CPython 2 orders \<^verbatim>\<open>None\<close> below every number, so \<^verbatim>\<open>None < 0\<close> is true there.
\<close>

definition py2_lt :: "int option \<Rightarrow> int \<Rightarrow> bool" where
  "py2_lt x n = (case x of None \<Rightarrow> True | Some i \<Rightarrow> i < n)"

text \<open>
  A call of a Python function with positional arguments: the arguments are bound to the
  declared parameters when their numbers agree, and the call raises \<^verbatim>\<open>TypeError\<close>
  otherwise (the message is shortened: Python also says how many were given). Reading a
  property calls its getter with the instance as only argument.
\<close>

definition py_call ::
  "string \<Rightarrow> string list \<Rightarrow> ((string \<rightharpoonup> 'x) \<Rightarrow> error + 'a) \<Rightarrow> 'x list \<Rightarrow> error + 'a" where
  "py_call fname params body args =
     (if length args = length params then body (map_of (zip params args))
      else Inl (TypeError (fname @ ''() takes a different number of arguments'')))"

definition property_get :: "('x list \<Rightarrow> error + 'a) \<Rightarrow> 'x \<Rightarrow> error + 'a" where
  "property_get fget instance = fget [instance]"

definition local_name :: "(string \<rightharpoonup> 'x) \<Rightarrow> string \<Rightarrow> error + 'x" where
  "local_name locals nm =
     (case locals nm of
        None \<Rightarrow> Inl (NameError (''global name '' @ quoted nm @ '' is not defined''))
      | Some x \<Rightarrow> Inr x)"

section \<open>The native world: workspace, variables, message service\<close>

datatype msg_level = DEBUG | INFO | PROGRESS | WARNING | ERROR | FATAL

datatype native_call = SetGlobalKillBelow msg_level | CreateNLL tobject tobject

datatype nll = NLL tobject tobject

record 'v realvar =
  isConstant :: bool
  getVal :: 'v
  getRange :: "'v \<times> 'v"

text \<open>
  The world holds the one workspace the methods below are called on (its name and what
  each accessor of the native \<^verbatim>\<open>RooWorkspace\<close> finds under a name), the state of the
  real-valued variables by address, what a model configuration holds, the global
  threshold of the message service, and a journal of the native calls that concern the
  message service and the construction of the likelihood.
\<close>

record 'v world =
  ws_name :: string
  RooWorkspace_obj :: "string \<rightharpoonup> tobject"
  RooWorkspace_arg :: "string \<rightharpoonup> tobject"
  RooWorkspace_argSet :: "string \<rightharpoonup> tobject"
  RooWorkspace_cat :: "string \<rightharpoonup> tobject"
  RooWorkspace_catfunc :: "string \<rightharpoonup> tobject"
  RooWorkspace_data :: "string \<rightharpoonup> tobject"
  RooWorkspace_function :: "string \<rightharpoonup> tobject"
  RooWorkspace_pdf :: "string \<rightharpoonup> tobject"
  RooWorkspace_set :: "string \<rightharpoonup> tobject"
  RooWorkspace_var :: "string \<rightharpoonup> tobject"
  allData :: "tobject list"
  allGenericObjects :: "tobject list"
  GetPdf :: "addr \<Rightarrow> tobject"
  GetParametersOfInterest :: "addr \<Rightarrow> tobject list"
  realvars :: "addr \<Rightarrow> 'v realvar"
  globalKillBelow :: msg_level
  calls :: "native_call list"

text \<open>The native setters store their argument in the variable behind the proxy.\<close>

definition setConstant :: "tobject \<Rightarrow> bool \<Rightarrow> 'v world \<Rightarrow> 'v world" where
  "setConstant v c w =
     w\<lparr>realvars := (realvars w)(ptr v := (realvars w (ptr v))\<lparr>isConstant := c\<rparr>)\<rparr>"

definition setVal :: "tobject \<Rightarrow> 'v \<Rightarrow> 'v world \<Rightarrow> 'v world" where
  "setVal v x w =
     w\<lparr>realvars := (realvars w)(ptr v := (realvars w (ptr v))\<lparr>getVal := x\<rparr>)\<rparr>"

definition setRange :: "tobject \<Rightarrow> 'v \<times> 'v \<Rightarrow> 'v world \<Rightarrow> 'v world" where
  "setRange v r w =
     w\<lparr>realvars := (realvars w)(ptr v := (realvars w (ptr v))\<lparr>getRange := r\<rparr>)\<rparr>"

definition setGlobalKillBelow :: "msg_level \<Rightarrow> 'v world \<Rightarrow> 'v world" where
  "setGlobalKillBelow l w =
     w\<lparr>globalKillBelow := l, calls := calls w @ [SetGlobalKillBelow l]\<rparr>"

definition createNLL :: "tobject \<Rightarrow> tobject \<Rightarrow> 'v world \<Rightarrow> nll \<times> 'v world" where
  "createNLL pdf data w = (NLL pdf data, w\<lparr>calls := calls w @ [CreateNLL pdf data]\<rparr>)"

section \<open>rootpy.stats.workspace: the named lookups\<close>

text \<open>
  \<^verbatim>\<open>asrootpy\<close> lives outside the files at hand; every definition takes it as a
  parameter, so nothing below depends on what wrapping does to an object.
\<close>

definition Workspace_getitem ::
  "(tobject \<Rightarrow> tobject) \<Rightarrow> string \<Rightarrow> 'v world \<Rightarrow> (error + tobject) \<times> 'v world" where
  "Workspace_getitem asrootpy nm w =
     (let thing = RooWorkspace_obj w nm in
      if eq_None thing
      then (Inl (ValueError (does_not_exist ''object'' nm (ws_name w))), w)
      else (Inr (asrootpy (the thing)), w))"

definition Workspace_contains :: "string \<Rightarrow> 'v world \<Rightarrow> bool \<times> 'v world" where
  "Workspace_contains nm w =
     (let thing = RooWorkspace_obj w nm in
      if proxy_truth thing then (True, w) else (False, w))"

definition Workspace_obj ::
  "(tobject \<Rightarrow> tobject) \<Rightarrow> string \<Rightarrow> string option \<Rightarrow> 'v world
     \<Rightarrow> (error + tobject) \<times> 'v world" where
  "Workspace_obj asrootpy nm cls w =
     (let thing = RooWorkspace_obj w nm in
      if eq_None thing
      then (Inl (ValueError (does_not_exist ''object'' nm (ws_name w))), w)
      else
        let thing = asrootpy (the thing) in
        if cls \<noteq> None \<and> \<not> isinstance thing (the cls)
        then (Inl (TypeError (''object named '' @ quoted nm
                 @ '' is not of the correct type: '' @ hd (classes thing @ [''object''])
                 @ '' does not subclass '' @ the cls)), w)
        else (Inr thing, w))"

text \<open>
  The eight accessors that only guard against a null pointer share one shape: the native
  accessor, the kind named in the message, and whether the result is wrapped.
\<close>

definition guarded ::
  "('v world \<Rightarrow> string \<rightharpoonup> tobject) \<Rightarrow> string \<Rightarrow> (tobject \<Rightarrow> tobject) \<Rightarrow> string
     \<Rightarrow> 'v world \<Rightarrow> (error + tobject) \<times> 'v world" where
  "guarded native kind wrap nm w =
     (let thing = native w nm in
      if eq_None thing
      then (Inl (ValueError (does_not_exist kind nm (ws_name w))), w)
      else (Inr (wrap (the thing)), w))"

definition Workspace_arg :: "string \<Rightarrow> 'v world \<Rightarrow> (error + tobject) \<times> 'v world" where
  "Workspace_arg = guarded RooWorkspace_arg ''RooAbsArg'' (\<lambda>thing. thing)"

definition Workspace_argset :: "string \<Rightarrow> 'v world \<Rightarrow> (error + tobject) \<times> 'v world" where
  "Workspace_argset = guarded RooWorkspace_argSet ''RooArgSet'' (\<lambda>thing. thing)"

definition Workspace_category :: "string \<Rightarrow> 'v world \<Rightarrow> (error + tobject) \<times> 'v world" where
  "Workspace_category = guarded RooWorkspace_cat ''RooCategory'' (\<lambda>thing. thing)"

definition Workspace_category_function ::
  "string \<Rightarrow> 'v world \<Rightarrow> (error + tobject) \<times> 'v world" where
  "Workspace_category_function = guarded RooWorkspace_catfunc ''RooAbsCategory'' (\<lambda>thing. thing)"

definition Workspace_data :: "string \<Rightarrow> 'v world \<Rightarrow> (error + tobject) \<times> 'v world" where
  "Workspace_data = guarded RooWorkspace_data ''RooAbsData'' (\<lambda>thing. thing)"

definition Workspace_function :: "string \<Rightarrow> 'v world \<Rightarrow> (error + tobject) \<times> 'v world" where
  "Workspace_function = guarded RooWorkspace_function ''RooAbsReal'' (\<lambda>thing. thing)"

definition Workspace_pdf :: "string \<Rightarrow> 'v world \<Rightarrow> (error + tobject) \<times> 'v world" where
  "Workspace_pdf = guarded RooWorkspace_pdf ''RooAbsPdf'' (\<lambda>thing. thing)"

definition Workspace_set ::
  "(tobject \<Rightarrow> tobject) \<Rightarrow> string \<Rightarrow> 'v world \<Rightarrow> (error + tobject) \<times> 'v world" where
  "Workspace_set asrootpy = guarded RooWorkspace_set ''RooArgSet'' asrootpy"

definition Workspace_var ::
  "(tobject \<Rightarrow> tobject) \<Rightarrow> string \<Rightarrow> 'v world \<Rightarrow> (error + tobject) \<times> 'v world" where
  "Workspace_var asrootpy = guarded RooWorkspace_var ''RooRealVar'' asrootpy"

text \<open>
  The collection properties. \<^verbatim>\<open>datas\<close> is declared \<^verbatim>\<open>def datas():\<close>, with no
  parameter, and its body names \<^verbatim>\<open>self\<close>; \<^verbatim>\<open>generic_objects\<close> is declared with
  \<^verbatim>\<open>self\<close>. Neither wraps its result.
\<close>

definition datas_fget :: "'v world list \<Rightarrow> error + tobject list" where
  "datas_fget =
     py_call ''datas'' []
       (\<lambda>locals. case local_name locals ''self'' of
                    Inl e \<Rightarrow> Inl e
                  | Inr self \<Rightarrow> Inr (allData self))"

definition Workspace_datas :: "'v world \<Rightarrow> error + tobject list" where
  "Workspace_datas self = property_get datas_fget self"

definition generic_objects_fget :: "'v world list \<Rightarrow> error + tobject list" where
  "generic_objects_fget =
     py_call ''generic_objects'' [''self'']
       (\<lambda>locals. case local_name locals ''self'' of
                    Inl e \<Rightarrow> Inl e
                  | Inr self \<Rightarrow> Inr (allGenericObjects self))"

definition Workspace_generic_objects :: "'v world \<Rightarrow> error + tobject list" where
  "Workspace_generic_objects self = property_get generic_objects_fget self"

section \<open>rootpy.stats.workspace: fit\<close>

text \<open>
  The keyword arguments of \<^verbatim>\<open>fit\<close>. A dictionary is the list of its items in the
  order \<^verbatim>\<open>items()\<close> yields them; an argument left at \<^verbatim>\<open>None\<close> is \<open>None\<close>.
  A range is the 2-tuple the docstring asks for.
\<close>

record ('v, 'k) fit_args =
  data_name :: string
  model_config_name :: string
  param_const :: "(string \<times> bool) list option"
  param_values :: "(string \<times> 'v) list option"
  param_ranges :: "(string \<times> ('v \<times> 'v)) list option"
  poi_const :: bool
  poi_value :: "'v option"
  poi_range :: "('v \<times> 'v) option"
  print_level :: "int option"
  kwargs :: 'k

definition fit_defaults :: "'k \<Rightarrow> ('v, 'k) fit_args" where
  "fit_defaults kw =
     \<lparr>data_name = ''obsData'', model_config_name = ''ModelConfig'',
      param_const = None, param_values = None, param_ranges = None,
      poi_const = False, poi_value = None, poi_range = None,
      print_level = None, kwargs = kw\<rparr>"

definition ModelConfig :: string where
  "ModelConfig = ''RooStats::ModelConfig''"

text \<open>Lines 230 to 237: the first parameter of interest, when there is one.\<close>

definition fit_poi ::
  "tobject list \<Rightarrow> bool \<Rightarrow> 'v option \<Rightarrow> ('v \<times> 'v) option \<Rightarrow> 'v world \<Rightarrow> 'v world" where
  "fit_poi pois pconst pvalue prange w =
     (if length pois > 0 then
        let poi = hd pois;
            w1 = setConstant poi pconst w;
            w2 = (case pvalue of None \<Rightarrow> w1 | Some x \<Rightarrow> setVal poi x w1);
            w3 = (case prange of None \<Rightarrow> w2 | Some r \<Rightarrow> setRange poi r w2)
        in w3
      else w)"

text \<open>
  Lines 239 to 250: one loop for each dictionary. Each turn looks the variable up, which
  may raise, and then calls the setter. The three loops differ in the setter only.
\<close>

fun for_items ::
  "(tobject \<Rightarrow> tobject) \<Rightarrow> (tobject \<Rightarrow> 'a \<Rightarrow> 'v world \<Rightarrow> 'v world) \<Rightarrow> (string \<times> 'a) list
     \<Rightarrow> 'v world \<Rightarrow> (error + unit) \<times> 'v world" where
  "for_items asrootpy setter [] w = (Inr (), w)"
| "for_items asrootpy setter ((param_name, x) # items) w =
     (case Workspace_var asrootpy param_name w of
        (Inl e, w') \<Rightarrow> (Inl e, w')
      | (Inr var, w') \<Rightarrow> for_items asrootpy setter items (setter var x w'))"

definition if_not_None ::
  "('d \<Rightarrow> 'v world \<Rightarrow> (error + unit) \<times> 'v world) \<Rightarrow> 'd option \<Rightarrow> 'v world
     \<Rightarrow> (error + unit) \<times> 'v world" where
  "if_not_None body d w = (case d of None \<Rightarrow> (Inr (), w) | Some items \<Rightarrow> body items w)"

definition fit_params ::
  "(tobject \<Rightarrow> tobject) \<Rightarrow> ('v, 'k) fit_args \<Rightarrow> 'v world \<Rightarrow> (error + unit) \<times> 'v world" where
  "fit_params asrootpy args w =
     (case if_not_None (for_items asrootpy setConstant) (param_const args) w of
        (Inl e, w1) \<Rightarrow> (Inl e, w1)
      | (Inr _, w1) \<Rightarrow>
          (case if_not_None (for_items asrootpy setVal) (param_values args) w1 of
             (Inl e, w2) \<Rightarrow> (Inl e, w2)
           | (Inr _, w2) \<Rightarrow> if_not_None (for_items asrootpy setRange) (param_ranges args) w2))"

text \<open>
  Lines 252 to 258: the likelihood, built under a raised threshold when
  \<^verbatim>\<open>print_level < 0\<close> holds. The test is made twice, as in the source.
\<close>

definition fit_nll :: "int option \<Rightarrow> tobject \<Rightarrow> tobject \<Rightarrow> 'v world \<Rightarrow> nll \<times> 'v world" where
  "fit_nll plevel pdf data w =
     (let (msg_level, w1) =
            (if py2_lt plevel 0
             then (Some (globalKillBelow w), setGlobalKillBelow FATAL w)
             else (None, w));
          (func, w2) = createNLL pdf data w1;
          w3 = (if py2_lt plevel 0 then setGlobalKillBelow (the msg_level) w2 else w2)
      in (func, w3))"

text \<open>
  \<^verbatim>\<open>minimize\<close> comes from \<^verbatim>\<open>rootpy.stats.fit\<close>, outside the files at hand: it is a
  parameter. \<open>fit_body\<close> is \<^verbatim>\<open>fit\<close> from line 228 on, once both lookups have
  returned; \<open>fit_rest\<close> is what follows the settings of the parameter of interest.
\<close>

definition fit_rest ::
  "(tobject \<Rightarrow> tobject) \<Rightarrow> (nll \<Rightarrow> int option \<Rightarrow> 'k \<Rightarrow> 'v world \<Rightarrow> (error + 'r) \<times> 'v world)
     \<Rightarrow> ('v, 'k) fit_args \<Rightarrow> tobject \<Rightarrow> tobject \<Rightarrow> 'v world \<Rightarrow> (error + 'r) \<times> 'v world" where
  "fit_rest asrootpy minimize args pdf data w =
     (case fit_params asrootpy args w of
        (Inl e, w1) \<Rightarrow> (Inl e, w1)
      | (Inr _, w1) \<Rightarrow>
          (let (func, w2) = fit_nll (print_level args) pdf data w1
           in minimize func (print_level args) (kwargs args) w2))"

definition fit_body ::
  "(tobject \<Rightarrow> tobject) \<Rightarrow> (nll \<Rightarrow> int option \<Rightarrow> 'k \<Rightarrow> 'v world \<Rightarrow> (error + 'r) \<times> 'v world)
     \<Rightarrow> ('v, 'k) fit_args \<Rightarrow> tobject \<Rightarrow> tobject \<Rightarrow> 'v world \<Rightarrow> (error + 'r) \<times> 'v world" where
  "fit_body asrootpy minimize args model_config data w =
     (let pdf = GetPdf w (ptr model_config);
          pois = GetParametersOfInterest w (ptr model_config);
          w1 = fit_poi pois (poi_const args) (poi_value args) (poi_range args) w
      in fit_rest asrootpy minimize args pdf data w1)"

definition Workspace_fit ::
  "(tobject \<Rightarrow> tobject) \<Rightarrow> (nll \<Rightarrow> int option \<Rightarrow> 'k \<Rightarrow> 'v world \<Rightarrow> (error + 'r) \<times> 'v world)
     \<Rightarrow> ('v, 'k) fit_args \<Rightarrow> 'v world \<Rightarrow> (error + 'r) \<times> 'v world" where
  "Workspace_fit asrootpy minimize args w =
     (case Workspace_obj asrootpy (model_config_name args) (Some ModelConfig) w of
        (Inl e, w1) \<Rightarrow> (Inl e, w1)
      | (Inr model_config, w1) \<Rightarrow>
          (case Workspace_data (data_name args) w1 of
             (Inl e, w2) \<Rightarrow> (Inl e, w2)
           | (Inr data, w2) \<Rightarrow> fit_body asrootpy minimize args model_config data w2))"






section \<open>rootpy.stats: mute_roostats\<close>

text \<open>
  \<^verbatim>\<open>os.environ.get('DEBUG', False)\<close> is the string the variable holds, or
  \<^verbatim>\<open>False\<close>; a string is true when it is not empty. The call of \<^verbatim>\<open>log.debug\<close>
  writes to the log only and is left out.
\<close>

datatype pyval = PyStr string | PyBool bool

definition environ_get :: "(string \<rightharpoonup> string) \<Rightarrow> string \<Rightarrow> pyval \<Rightarrow> pyval" where
  "environ_get environ key dflt = (case environ key of None \<Rightarrow> dflt | Some s \<Rightarrow> PyStr s)"

fun pyval_truth :: "pyval \<Rightarrow> bool" where
  "pyval_truth (PyStr s) = (s \<noteq> [])"
| "pyval_truth (PyBool b) = b"

definition mute_roostats :: "(string \<rightharpoonup> string) \<Rightarrow> 'v world \<Rightarrow> 'v world" where
  "mute_roostats environ w =
     (if \<not> pyval_truth (environ_get environ ''DEBUG'' (PyBool False))
      then setGlobalKillBelow WARNING w
      else w)"

section \<open>examples/tree/models.py\<close>

text \<open>
  A tree model is the list of its fields, each with the column type it declares. A class
  statement puts the fields of its own body before those of its bases, taken from left
  to right, so that \<open>map_of\<close> finds a name where Python's attribute lookup does.
\<close>

datatype column = LorentzVector | Vector2 | BoolCol | IntCol

type_synonym tree_model = "(string \<times> column) list"

definition class_stmt :: "tree_model list \<Rightarrow> tree_model \<Rightarrow> tree_model" where
  "class_stmt bases body = body @ concat bases"

definition TreeModel :: tree_model where
  "TreeModel = []"

definition TreeModel_prefix :: "string \<Rightarrow> tree_model \<Rightarrow> tree_model" where
  \<comment> \<open>Modelled from the spec: \<^verbatim>\<open>TreeModel.prefix\<close> is defined in \<^verbatim>\<open>rootpy.tree\<close>, which is
     not among the files at hand. A tree model maps named fields to column types; the
     prefixed model declares the same fields, each name preceded by the prefix.\<close>
  "TreeModel_prefix p model = map (\<lambda>(field, col). (p @ field, col)) model"

definition FourMomentum :: tree_model where
  "FourMomentum = class_stmt [TreeModel] [(''fourmomentum'', LorentzVector)]"

definition MatchedObject :: tree_model where
  "MatchedObject = class_stmt [TreeModel] [(''matched'', BoolCol)]"

definition Jet :: tree_model where
  "Jet = class_stmt [FourMomentum, MatchedObject] [(''btagged'', BoolCol)]"

definition Tau :: tree_model where
  "Tau = class_stmt [FourMomentum, MatchedObject] [(''numtrack'', IntCol), (''charge'', IntCol)]"

definition Event :: tree_model where
  "Event =
     class_stmt
       [TreeModel_prefix ''jet1_'' Jet, TreeModel_prefix ''jet2_'' Jet,
        TreeModel_prefix ''tau1_'' Tau, TreeModel_prefix ''tau2_'' Tau]
       [(''eventnumber'', IntCol), (''missingET'', Vector2)]"

section \<open>A small workspace to run the definitions on\<close>

definition mu :: tobject where
  "mu = \<lparr>classes = [''RooRealVar'', ''RooAbsArg'', ''TObject''], ptr = 1\<rparr>"

definition alpha :: tobject where
  "alpha = \<lparr>classes = [''RooRealVar'', ''RooAbsArg'', ''TObject''], ptr = 2\<rparr>"

definition model :: tobject where
  "model = \<lparr>classes = [''RooAbsPdf'', ''RooAbsArg'', ''TObject''], ptr = 3\<rparr>"

definition obsData :: tobject where
  "obsData = \<lparr>classes = [''RooDataSet'', ''RooAbsData'', ''TObject''], ptr = 4\<rparr>"

definition config :: tobject where
  "config = \<lparr>classes = [''RooStats::ModelConfig'', ''TNamed'', ''TObject''], ptr = 5\<rparr>"

definition combined :: "int world" where
  "combined =
     \<lparr>ws_name = ''combined'',
      RooWorkspace_obj =
        [''mu'' \<mapsto> mu, ''alpha'' \<mapsto> alpha, ''model'' \<mapsto> model, ''obsData'' \<mapsto> obsData,
         ''ModelConfig'' \<mapsto> config],
      RooWorkspace_arg = [''mu'' \<mapsto> mu, ''alpha'' \<mapsto> alpha, ''model'' \<mapsto> model],
      RooWorkspace_argSet = Map.empty,
      RooWorkspace_cat = Map.empty,
      RooWorkspace_catfunc = Map.empty,
      RooWorkspace_data = [''obsData'' \<mapsto> obsData],
      RooWorkspace_function = [''model'' \<mapsto> model],
      RooWorkspace_pdf = [''model'' \<mapsto> model],
      RooWorkspace_set = Map.empty,
      RooWorkspace_var = [''mu'' \<mapsto> mu, ''alpha'' \<mapsto> alpha],
      allData = [obsData],
      allGenericObjects = [config],
      GetPdf = (\<lambda>a. model),
      GetParametersOfInterest = (\<lambda>a. if a = 5 then [mu] else []),
      realvars = (\<lambda>a. \<lparr>isConstant = False, getVal = 0, getRange = (- 10, 10)\<rparr>),
      globalKillBelow = INFO,
      calls = []\<rparr>"

definition no_minimize :: "nll \<Rightarrow> int option \<Rightarrow> unit \<Rightarrow> int world \<Rightarrow> (error + nll) \<times> int world" where
  \<comment> \<open>a stand-in for \<^verbatim>\<open>minimize\<close> that returns the likelihood and touches nothing\<close>
  "no_minimize func plevel kw w = (Inr func, w)"

section \<open>Facts shared by the proofs\<close>

lemmas lookup_defs = Workspace_getitem_def Workspace_contains_def Workspace_obj_def guarded_def
  Workspace_arg_def Workspace_argset_def Workspace_category_def Workspace_category_function_def
  Workspace_data_def Workspace_function_def Workspace_pdf_def Workspace_set_def Workspace_var_def
  eq_None_def proxy_truth_def

lemmas setter_defs = setConstant_def setVal_def setRange_def

lemma guarded_result:
  "guarded native kind wrap nm w =
     (case native w nm of
        None \<Rightarrow> (Inl (ValueError (does_not_exist kind nm (ws_name w))), w)
      | Some thing \<Rightarrow> (Inr (wrap thing), w))"
  by (simp add: guarded_def eq_None_def split: option.split)







section \<open>The threshold of the message service around the likelihood\<close>

text \<open>
  C1. The claim: a negative \<^verbatim>\<open>print_level\<close> raises the global threshold to FATAL
  before the likelihood is built and restores it right after, and every other
  \<^verbatim>\<open>print_level\<close>, the default \<^verbatim>\<open>None\<close> included, leaves the threshold alone.
  The code does the first for every negative number and leaves the threshold alone for
  every number from 0 on, but it also raises and restores the threshold for \<^verbatim>\<open>None\<close>:
  the test is \<^verbatim>\<open>print_level < 0\<close>, and \<^verbatim>\<open>None < 0\<close> holds in Python 2. The
  docstring of \<^verbatim>\<open>fit\<close> keeps the two cases apart (\<^verbatim>\<open>None\<close>: use the global default;
  negative: suppress all non-fatal messages). The last conjunct runs \<^verbatim>\<open>fit\<close> with
  all its defaults on the workspace \<open>combined\<close>.
\<close>

theorem fit_nll_threshold:
  "fit_nll None pdf data w =
     (NLL pdf data,
      w\<lparr>calls := calls w @ [SetGlobalKillBelow FATAL, CreateNLL pdf data,
                            SetGlobalKillBelow (globalKillBelow w)]\<rparr>)
   \<and> fit_nll (Some i) pdf data w =
     (NLL pdf data,
      w\<lparr>calls := calls w @
             (if i < 0
              then [SetGlobalKillBelow FATAL, CreateNLL pdf data,
                    SetGlobalKillBelow (globalKillBelow w)]
              else [CreateNLL pdf data])\<rparr>)
   \<and> calls (snd (Workspace_fit (\<lambda>thing. thing) no_minimize (fit_defaults ()) combined))
       = [SetGlobalKillBelow FATAL, CreateNLL model obsData, SetGlobalKillBelow INFO]"
proof (intro conjI)
  show "fit_nll None pdf data w =
     (NLL pdf data,
      w\<lparr>calls := calls w @ [SetGlobalKillBelow FATAL, CreateNLL pdf data,
                            SetGlobalKillBelow (globalKillBelow w)]\<rparr>)"
    by (simp add: fit_nll_def py2_lt_def setGlobalKillBelow_def createNLL_def)
  show "fit_nll (Some i) pdf data w =
     (NLL pdf data,
      w\<lparr>calls := calls w @
             (if i < 0
              then [SetGlobalKillBelow FATAL, CreateNLL pdf data,
                    SetGlobalKillBelow (globalKillBelow w)]
              else [CreateNLL pdf data])\<rparr>)"
    by (simp add: fit_nll_def py2_lt_def setGlobalKillBelow_def createNLL_def)
  show "calls (snd (Workspace_fit (\<lambda>thing. thing) no_minimize (fit_defaults ()) combined))
       = [SetGlobalKillBelow FATAL, CreateNLL model obsData, SetGlobalKillBelow INFO]"
    by (simp add: Workspace_fit_def fit_body_def fit_rest_def fit_params_def if_not_None_def
          fit_poi_def fit_nll_def py2_lt_def setGlobalKillBelow_def createNLL_def
          no_minimize_def fit_defaults_def combined_def lookup_defs setter_defs
          isinstance_def config_def ModelConfig_def mu_def Let_def)
qed

section \<open>Lookups by name\<close>

text \<open>
  C2. For every name, \<^verbatim>\<open>workspace[name]\<close> returns the wrapped object when the
  workspace holds an object of that name, and raises \<^verbatim>\<open>ValueError\<close> when it holds
  none; and \<^verbatim>\<open>name in workspace\<close> is true exactly when \<^verbatim>\<open>workspace[name]\<close>
  returns.
\<close>

theorem getitem_contains:
  "(\<forall>thing. RooWorkspace_obj w nm = Some thing \<longrightarrow>
      fst (Workspace_getitem asrootpy nm w) = Inr (asrootpy thing))
   \<and> (RooWorkspace_obj w nm = None \<longrightarrow>
      fst (Workspace_getitem asrootpy nm w)
        = Inl (ValueError (does_not_exist ''object'' nm (ws_name w))))
   \<and> (fst (Workspace_contains nm w) \<longleftrightarrow> (\<exists>x. fst (Workspace_getitem asrootpy nm w) = Inr x))"
  by (cases "RooWorkspace_obj w nm") (simp_all add: lookup_defs)

theorem getitem_contains_witness:
  "fst (Workspace_getitem (\<lambda>thing. thing) ''mu'' combined) = Inr mu
   \<and> fst (Workspace_contains ''mu'' combined)
   \<and> fst (Workspace_getitem (\<lambda>thing. thing) ''nope'' combined)
       = Inl (ValueError (does_not_exist ''object'' ''nope'' ''combined''))
   \<and> \<not> fst (Workspace_contains ''nope'' combined)"
  using getitem_contains [of combined "''mu''" "\<lambda>thing. thing"]
        getitem_contains [of combined "''nope''" "\<lambda>thing. thing"]
  by (simp add: combined_def)

text \<open>
  C3. \<^verbatim>\<open>obj(name, cls)\<close> raises \<^verbatim>\<open>ValueError\<close> when the workspace holds no object of
  that name, raises \<^verbatim>\<open>TypeError\<close> when it holds one whose wrapped form is not an
  instance of the class given, and returns the wrapped object otherwise, that is when no
  class is given or the wrapped object is an instance of it. The workspace is the same
  afterwards in all three cases.
\<close>

theorem obj_cases:
  "(RooWorkspace_obj w nm = None \<longrightarrow>
      Workspace_obj asrootpy nm cls w
        = (Inl (ValueError (does_not_exist ''object'' nm (ws_name w))), w))
   \<and> (\<forall>thing c. RooWorkspace_obj w nm = Some thing \<and> cls = Some c
          \<and> \<not> isinstance (asrootpy thing) c \<longrightarrow>
        (\<exists>msg. Workspace_obj asrootpy nm cls w = (Inl (TypeError msg), w)))
   \<and> (\<forall>thing. RooWorkspace_obj w nm = Some thing
          \<and> (cls = None \<or> (\<exists>c. cls = Some c \<and> isinstance (asrootpy thing) c)) \<longrightarrow>
        Workspace_obj asrootpy nm cls w = (Inr (asrootpy thing), w))"
  by (cases "RooWorkspace_obj w nm") (auto simp add: lookup_defs Let_def)

theorem obj_cases_witness:
  "Workspace_obj (\<lambda>thing. thing) ''nope'' (Some ModelConfig) combined
     = (Inl (ValueError (does_not_exist ''object'' ''nope'' ''combined'')), combined)
   \<and> (\<exists>msg. Workspace_obj (\<lambda>thing. thing) ''mu'' (Some ModelConfig) combined
               = (Inl (TypeError msg), combined))
   \<and> Workspace_obj (\<lambda>thing. thing) ''ModelConfig'' (Some ModelConfig) combined
       = (Inr config, combined)
   \<and> Workspace_obj (\<lambda>thing. thing) ''mu'' None combined = (Inr mu, combined)"
  using obj_cases [of combined "''nope''" "\<lambda>thing. thing" "Some ModelConfig"]
        obj_cases [of combined "''mu''" "\<lambda>thing. thing" "Some ModelConfig"]
        obj_cases [of combined "''ModelConfig''" "\<lambda>thing. thing" "Some ModelConfig"]
        obj_cases [of combined "''mu''" "\<lambda>thing. thing" None]
  by (simp add: combined_def isinstance_def mu_def config_def ModelConfig_def)

section \<open>Muting the message service\<close>

text \<open>
  C4. \<^verbatim>\<open>mute_roostats\<close> sets the global threshold to WARNING exactly when the
  environment variable DEBUG is unset or empty; for any other value of DEBUG it changes
  nothing.
\<close>

theorem mute_roostats_iff:
  "(environ ''DEBUG'' = None \<or> environ ''DEBUG'' = Some [] \<longrightarrow>
      mute_roostats environ w = setGlobalKillBelow WARNING w
      \<and> globalKillBelow (mute_roostats environ w) = WARNING
      \<and> calls (mute_roostats environ w) = calls w @ [SetGlobalKillBelow WARNING])
   \<and> (\<not> (environ ''DEBUG'' = None \<or> environ ''DEBUG'' = Some []) \<longrightarrow>
      mute_roostats environ w = w)"
  by (cases "environ ''DEBUG''")
     (simp_all add: mute_roostats_def environ_get_def setGlobalKillBelow_def)

theorem mute_roostats_iff_witness:
  "globalKillBelow (mute_roostats Map.empty combined) = WARNING
   \<and> globalKillBelow (mute_roostats [''DEBUG'' \<mapsto> []] combined) = WARNING
   \<and> calls (mute_roostats [''DEBUG'' \<mapsto> []] combined) = [SetGlobalKillBelow WARNING]
   \<and> mute_roostats [''DEBUG'' \<mapsto> ''1''] combined = combined"
  using mute_roostats_iff [of Map.empty combined]
        mute_roostats_iff [of "[''DEBUG'' \<mapsto> []]" combined]
        mute_roostats_iff [of "[''DEBUG'' \<mapsto> ''1'']" combined]
  by (simp add: combined_def setGlobalKillBelow_def)

section \<open>The collection properties\<close>

text \<open>
  C5. The claim: reading \<^verbatim>\<open>datas\<close> returns the native collection of all datasets,
  without raising. The getter is declared without \<^verbatim>\<open>self\<close>, so reading the property
  raises \<^verbatim>\<open>TypeError\<close> on every workspace; its sibling \<^verbatim>\<open>generic_objects\<close>, declared
  with \<^verbatim>\<open>self\<close>, returns its native collection.
\<close>

theorem datas_raises:
  "Workspace_datas w = Inl (TypeError ''datas() takes a different number of arguments'')
   \<and> Workspace_generic_objects w = Inr (allGenericObjects w)"
  by (simp add: Workspace_datas_def datas_fget_def Workspace_generic_objects_def
        generic_objects_fget_def property_get_def py_call_def local_name_def)

section \<open>The lookups change nothing\<close>



section \<open>The tree models of the example\<close>

text \<open>
  C8. \<^verbatim>\<open>Event\<close> declares exactly the fields of a \<^verbatim>\<open>Jet\<close> under the prefixes
  \<^verbatim>\<open>jet1_\<close> and \<^verbatim>\<open>jet2_\<close>, the fields of a \<^verbatim>\<open>Tau\<close> under \<^verbatim>\<open>tau1_\<close> and
  \<^verbatim>\<open>tau2_\<close>, the integer column \<^verbatim>\<open>eventnumber\<close> and the 2-vector
  \<^verbatim>\<open>missingET\<close>, no name twice; \<^verbatim>\<open>Jet\<close> and \<^verbatim>\<open>Tau\<close> add their own fields to
  \<^verbatim>\<open>fourmomentum\<close>, which they have from \<^verbatim>\<open>FourMomentum\<close>, and \<^verbatim>\<open>matched\<close>,
  which they have from \<^verbatim>\<open>MatchedObject\<close>.
\<close>

theorem event_fields:
  "set Event =
     {(''eventnumber'', IntCol), (''missingET'', Vector2),
      (''jet1_btagged'', BoolCol), (''jet1_fourmomentum'', LorentzVector),
      (''jet1_matched'', BoolCol),
      (''jet2_btagged'', BoolCol), (''jet2_fourmomentum'', LorentzVector),
      (''jet2_matched'', BoolCol),
      (''tau1_numtrack'', IntCol), (''tau1_charge'', IntCol),
      (''tau1_fourmomentum'', LorentzVector), (''tau1_matched'', BoolCol),
      (''tau2_numtrack'', IntCol), (''tau2_charge'', IntCol),
      (''tau2_fourmomentum'', LorentzVector), (''tau2_matched'', BoolCol)}
   \<and> distinct (map fst Event)
   \<and> set Jet = {(''btagged'', BoolCol)} \<union> set FourMomentum \<union> set MatchedObject
   \<and> set Tau = {(''numtrack'', IntCol), (''charge'', IntCol)}
                 \<union> set FourMomentum \<union> set MatchedObject
   \<and> set FourMomentum = {(''fourmomentum'', LorentzVector)}
   \<and> set MatchedObject = {(''matched'', BoolCol)}
   \<and> map_of Jet ''fourmomentum'' = map_of FourMomentum ''fourmomentum''
   \<and> map_of Jet ''matched'' = map_of MatchedObject ''matched''
   \<and> map_of Tau ''fourmomentum'' = map_of FourMomentum ''fourmomentum''
   \<and> map_of Tau ''matched'' = map_of MatchedObject ''matched''"
  by (auto simp add: Event_def Jet_def Tau_def FourMomentum_def MatchedObject_def TreeModel_def
        class_stmt_def TreeModel_prefix_def)

section \<open>fit: the lookups, the parameter of interest and the three loops\<close>

lemma obj_result:
  "Workspace_obj asrootpy nm cls w =
     (case RooWorkspace_obj w nm of
        None \<Rightarrow> (Inl (ValueError (does_not_exist ''object'' nm (ws_name w))), w)
      | Some thing \<Rightarrow>
          (case cls of
             None \<Rightarrow> (Inr (asrootpy thing), w)
           | Some c \<Rightarrow>
               if isinstance (asrootpy thing) c then (Inr (asrootpy thing), w)
               else (Inl (TypeError (''object named '' @ quoted nm
                      @ '' is not of the correct type: ''
                      @ hd (classes (asrootpy thing) @ [''object''])
                      @ '' does not subclass '' @ c)), w)))"
  by (simp add: Workspace_obj_def eq_None_def Let_def split: option.split)

lemma fit_reaches_body:
  assumes "RooWorkspace_obj w (model_config_name args) = Some thing"
      and "isinstance (asrootpy thing) ModelConfig"
      and "RooWorkspace_data w (data_name args) = Some data"
  shows "Workspace_fit asrootpy minimize args w
           = fit_body asrootpy minimize args (asrootpy thing) data w"
  using assms by (simp add: Workspace_fit_def obj_result Workspace_data_def guarded_result)









lemma fit_params_poi_args:
  "fit_params asrootpy (args\<lparr>poi_const := c, poi_value := v, poi_range := r\<rparr>) w
     = fit_params asrootpy args w"
  by (simp add: fit_params_def split: prod.split sum.split)

lemma fit_rest_poi_args:
  "fit_rest asrootpy minimize (args\<lparr>poi_const := c, poi_value := v, poi_range := r\<rparr>) pdf data w
     = fit_rest asrootpy minimize args pdf data w"
  by (simp add: fit_rest_def fit_params_poi_args split: prod.split sum.split)

lemma fit_poi_Nil: "fit_poi [] c v r w = w"
  by (simp add: fit_poi_def)

lemma fit_poi_Cons:
  "realvars (fit_poi (poi # others) c v r w) =
     (realvars w)(ptr poi := \<lparr>isConstant = c,
        getVal = (case v of None \<Rightarrow> getVal (realvars w (ptr poi)) | Some x \<Rightarrow> x),
        getRange = (case r of None \<Rightarrow> getRange (realvars w (ptr poi)) | Some y \<Rightarrow> y)\<rparr>)"
  "(fit_poi (poi # others) c v r w)\<lparr>realvars := realvars w\<rparr> = w"
  by (simp_all add: fit_poi_def setter_defs Let_def fun_eq_iff split: option.split)



text \<open>
  C6. The claim: \<^verbatim>\<open>fit\<close> looks up the model configuration, checks that it is a
  \<^verbatim>\<open>ModelConfig\<close>, and whenever the configuration has a parameter of interest, sets the
  constant flag of the first one to \<^verbatim>\<open>poi_const\<close>, its value to \<^verbatim>\<open>poi_value\<close> and
  its range to \<^verbatim>\<open>poi_range\<close> where these are not \<^verbatim>\<open>None\<close>. Between the lookup of
  the configuration and these settings the code looks up the dataset (line 227), which
  raises when the workspace has none of that name. Amended: \<^verbatim>\<open>fit\<close> raises
  \<^verbatim>\<open>ValueError\<close> when no object has the name of the configuration and \<^verbatim>\<open>TypeError\<close>
  when the object is not a \<^verbatim>\<open>ModelConfig\<close>, changing nothing; when the configuration
  is found and no dataset is named \<^verbatim>\<open>data_name\<close>, it raises the \<^verbatim>\<open>ValueError\<close> of
  the dataset and changes nothing, so the parameter of interest is as it was; and whenever
  the configuration is found, the dataset named \<^verbatim>\<open>data_name\<close> exists and the configuration
  has a parameter of interest, \<^verbatim>\<open>fit\<close> goes on from a world in which the first
  parameter of interest has the constant flag \<^verbatim>\<open>poi_const\<close>, the value
  \<^verbatim>\<open>poi_value\<close> and the range \<^verbatim>\<open>poi_range\<close> where these are given and its former
  value and range where they are not, and in which nothing else has changed.
\<close>

theorem fit_sets_poi:
  "(RooWorkspace_obj w (model_config_name args) = None \<longrightarrow>
      Workspace_fit asrootpy minimize args w
        = (Inl (ValueError (does_not_exist ''object'' (model_config_name args) (ws_name w))), w))
   \<and> (\<forall>thing. RooWorkspace_obj w (model_config_name args) = Some thing
          \<and> \<not> isinstance (asrootpy thing) ModelConfig \<longrightarrow>
        (\<exists>msg. Workspace_fit asrootpy minimize args w = (Inl (TypeError msg), w)))
   \<and> (\<forall>thing. RooWorkspace_obj w (model_config_name args) = Some thing
          \<and> isinstance (asrootpy thing) ModelConfig
          \<and> RooWorkspace_data w (data_name args) = None \<longrightarrow>
        Workspace_fit asrootpy minimize args w
          = (Inl (ValueError (does_not_exist ''RooAbsData'' (data_name args) (ws_name w))), w))
   \<and> (\<forall>thing data poi others.
        RooWorkspace_obj w (model_config_name args) = Some thing
          \<and> isinstance (asrootpy thing) ModelConfig
          \<and> RooWorkspace_data w (data_name args) = Some data
          \<and> GetParametersOfInterest w (ptr (asrootpy thing)) = poi # others \<longrightarrow>
        (\<exists>w1. Workspace_fit asrootpy minimize args w
                 = fit_rest asrootpy minimize args (GetPdf w (ptr (asrootpy thing))) data w1
            \<and> isConstant (realvars w1 (ptr poi)) = poi_const args
            \<and> getVal (realvars w1 (ptr poi))
                = (case poi_value args of None \<Rightarrow> getVal (realvars w (ptr poi)) | Some x \<Rightarrow> x)
            \<and> getRange (realvars w1 (ptr poi))
                = (case poi_range args of None \<Rightarrow> getRange (realvars w (ptr poi)) | Some r \<Rightarrow> r)
            \<and> (\<forall>a. a \<noteq> ptr poi \<longrightarrow> realvars w1 a = realvars w a)
            \<and> w1\<lparr>realvars := realvars w\<rparr> = w))"
proof (intro conjI allI impI)
  assume "RooWorkspace_obj w (model_config_name args) = None"
  then show "Workspace_fit asrootpy minimize args w
        = (Inl (ValueError (does_not_exist ''object'' (model_config_name args) (ws_name w))), w)"
    by (simp add: Workspace_fit_def obj_result)
next
  fix thing
  assume "RooWorkspace_obj w (model_config_name args) = Some thing
          \<and> \<not> isinstance (asrootpy thing) ModelConfig"
  then show "\<exists>msg. Workspace_fit asrootpy minimize args w = (Inl (TypeError msg), w)"
    by (simp add: Workspace_fit_def obj_result)
next
  fix thing
  assume "RooWorkspace_obj w (model_config_name args) = Some thing
          \<and> isinstance (asrootpy thing) ModelConfig
          \<and> RooWorkspace_data w (data_name args) = None"
  then show "Workspace_fit asrootpy minimize args w
          = (Inl (ValueError (does_not_exist ''RooAbsData'' (data_name args) (ws_name w))), w)"
    by (simp add: Workspace_fit_def obj_result Workspace_data_def guarded_result)
next
  fix thing data poi others
  assume found: "RooWorkspace_obj w (model_config_name args) = Some thing
          \<and> isinstance (asrootpy thing) ModelConfig
          \<and> RooWorkspace_data w (data_name args) = Some data
          \<and> GetParametersOfInterest w (ptr (asrootpy thing)) = poi # others"
  let ?w1 = "fit_poi (poi # others) (poi_const args) (poi_value args) (poi_range args) w"
  from found have "Workspace_fit asrootpy minimize args w
      = fit_rest asrootpy minimize args (GetPdf w (ptr (asrootpy thing))) data ?w1"
    by (simp add: fit_reaches_body fit_body_def)
  moreover have "isConstant (realvars ?w1 (ptr poi)) = poi_const args"
    and "getVal (realvars ?w1 (ptr poi))
          = (case poi_value args of None \<Rightarrow> getVal (realvars w (ptr poi)) | Some x \<Rightarrow> x)"
    and "getRange (realvars ?w1 (ptr poi))
          = (case poi_range args of None \<Rightarrow> getRange (realvars w (ptr poi)) | Some r \<Rightarrow> r)"
    and "\<forall>a. a \<noteq> ptr poi \<longrightarrow> realvars ?w1 a = realvars w a"
    and "?w1\<lparr>realvars := realvars w\<rparr> = w"
    by (simp_all add: fit_poi_Cons)
  ultimately show "\<exists>w1. Workspace_fit asrootpy minimize args w
                 = fit_rest asrootpy minimize args (GetPdf w (ptr (asrootpy thing))) data w1
            \<and> isConstant (realvars w1 (ptr poi)) = poi_const args
            \<and> getVal (realvars w1 (ptr poi))
                = (case poi_value args of None \<Rightarrow> getVal (realvars w (ptr poi)) | Some x \<Rightarrow> x)
            \<and> getRange (realvars w1 (ptr poi))
                = (case poi_range args of None \<Rightarrow> getRange (realvars w (ptr poi)) | Some r \<Rightarrow> r)
            \<and> (\<forall>a. a \<noteq> ptr poi \<longrightarrow> realvars w1 a = realvars w a)
            \<and> w1\<lparr>realvars := realvars w\<rparr> = w"
    by blast
qed

theorem fit_sets_poi_witness:
  "RooWorkspace_obj combined ''ModelConfig'' = Some config
   \<and> isinstance config ModelConfig
   \<and> RooWorkspace_data combined ''obsData'' = Some obsData
   \<and> GetParametersOfInterest combined (ptr config) = [mu]
   \<and> realvars (snd (Workspace_fit (\<lambda>thing. thing) no_minimize
        ((fit_defaults ())\<lparr>poi_const := True, poi_value := Some 3, poi_range := Some (0, 5)\<rparr>)
        combined)) (ptr mu)
       = \<lparr>isConstant = True, getVal = 3, getRange = (0, 5)\<rparr>
   \<and> RooWorkspace_data combined ''asimovData'' = None
   \<and> Workspace_fit (\<lambda>thing. thing) no_minimize
        ((fit_defaults ())\<lparr>data_name := ''asimovData'', poi_const := True\<rparr>) combined
       = (Inl (ValueError (does_not_exist ''RooAbsData'' ''asimovData'' ''combined'')), combined)"
  using fit_sets_poi [where w = combined and asrootpy = "\<lambda>thing. thing"
      and minimize = no_minimize
      and args = "(fit_defaults ())\<lparr>poi_const := True, poi_value := Some 3,
                     poi_range := Some (0, 5)\<rparr>"]
        fit_sets_poi [where w = combined and asrootpy = "\<lambda>thing. thing"
      and minimize = no_minimize
      and args = "(fit_defaults ())\<lparr>data_name := ''asimovData'', poi_const := True\<rparr>"]
  by (simp add: Workspace_fit_def fit_body_def fit_rest_def fit_params_def if_not_None_def
        fit_poi_def fit_nll_def py2_lt_def setGlobalKillBelow_def createNLL_def
        no_minimize_def fit_defaults_def combined_def lookup_defs setter_defs
        isinstance_def config_def ModelConfig_def mu_def Let_def)

text \<open>
  The claim of C6 as it stands fails on the workspace \<open>combined\<close>: its configuration has
  the parameter of interest \<open>mu\<close>, it has no dataset named \<^verbatim>\<open>asimovData\<close>, and
  \<^verbatim>\<open>fit(data_name='asimovData', poi_const=True)\<close> raises \<^verbatim>\<open>ValueError\<close> with
  \<open>mu\<close> as it was, not constant.
\<close>

theorem fit_sets_poi_counterexample:
  "RooWorkspace_obj combined ''ModelConfig'' = Some config
   \<and> isinstance config ModelConfig
   \<and> GetParametersOfInterest combined (ptr config) = [mu]
   \<and> Workspace_fit (\<lambda>thing. thing) no_minimize
        ((fit_defaults ())\<lparr>data_name := ''asimovData'', poi_const := True\<rparr>) combined
       = (Inl (ValueError (does_not_exist ''RooAbsData'' ''asimovData'' ''combined'')), combined)
   \<and> \<not> isConstant (realvars combined (ptr mu))"
  by (simp add: Workspace_fit_def fit_defaults_def combined_def lookup_defs
        isinstance_def config_def ModelConfig_def Let_def)




text \<open>
  C10. When the model configuration has no parameter of interest, \<^verbatim>\<open>fit\<close> ignores
  \<^verbatim>\<open>poi_const\<close>, \<^verbatim>\<open>poi_value\<close> and \<^verbatim>\<open>poi_range\<close>: whatever they are, the
  result and the world after the call are those of the call with the arguments as they
  were, so they raise nothing and change no parameter; the step that would use them
  leaves the world as it is.
\<close>

theorem fit_ignores_poi_arguments:
  assumes "\<forall>thing. RooWorkspace_obj w (model_config_name args) = Some thing \<longrightarrow>
             GetParametersOfInterest w (ptr (asrootpy thing)) = []"
  shows "Workspace_fit asrootpy minimize (args\<lparr>poi_const := c, poi_value := v, poi_range := r\<rparr>) w
           = Workspace_fit asrootpy minimize args w
         \<and> fit_poi [] c v r w = w"
proof (cases "RooWorkspace_obj w (model_config_name args)")
  case None
  then show ?thesis by (simp add: Workspace_fit_def obj_result fit_poi_Nil)
next
  case (Some thing)
  with assms have pois: "GetParametersOfInterest w (ptr (asrootpy thing)) = []" by simp
  have "fit_body asrootpy minimize (args\<lparr>poi_const := c, poi_value := v, poi_range := r\<rparr>)
          (asrootpy thing) data w
        = fit_body asrootpy minimize args (asrootpy thing) data w" for data
    by (simp add: fit_body_def pois fit_poi_Nil fit_rest_poi_args)
  with Some show ?thesis
    by (simp add: Workspace_fit_def obj_result Workspace_data_def guarded_result fit_poi_Nil
          split: option.split)
qed

theorem fit_ignores_poi_arguments_witness:
  "Workspace_fit (\<lambda>thing. thing) no_minimize
     ((fit_defaults ())\<lparr>poi_const := True, poi_value := Some 3, poi_range := Some (0, 5)\<rparr>)
     (combined\<lparr>GetParametersOfInterest := (\<lambda>a. [])\<rparr>)
   = Workspace_fit (\<lambda>thing. thing) no_minimize (fit_defaults ())
       (combined\<lparr>GetParametersOfInterest := (\<lambda>a. [])\<rparr>)"
  using fit_ignores_poi_arguments
    [where w = "combined\<lparr>GetParametersOfInterest := (\<lambda>a. [])\<rparr>" and args = "fit_defaults ()"
       and asrootpy = "\<lambda>thing. thing" and minimize = no_minimize
       and c = True and v = "Some 3" and r = "Some (0, 5)"]
  by simp

end
